theory Spec2Isabelle
  imports Main "HOL-Library.Word"
begin

section \<open>The data model of \<open>field_data_processor.py\<close>\<close>

text \<open>
  The module holds one class, \<open>FieldDataProcessor\<close>: five configuration fields, a table
  (a pandas DataFrame), a database engine and a logger. Its methods are modelled as
  functions from the instance to an outcome and the instance after the call; a Python
  exception is the \<open>Inl\<close> branch of the outcome.

  The cells of a table are Python integers, floats, strings and \<open>None\<close>. A float is
  its IEEE 754 binary64 bit pattern: bit 63 is the sign, bits 52 to 62 the exponent, bits
  0 to 51 the fraction; \<open>NaN\<close> is a float. A pandas column has a dtype: an \<open>int64\<close> column
  stores 64-bit two's-complement integers, a \<open>uint64\<close> column 64-bit unsigned integers, a
  \<open>float64\<close> column floats, and an \<open>object\<close> column Python objects, whose integers are
  unbounded.
\<close>

datatype pyobj = PInt int | PFloat "64 word" | PStr string | PNone

datatype series =
    Int64 "64 word list"
  | UInt64 "64 word list"
  | Float64 "64 word list"
  | Object "pyobj list"

text \<open>A DataFrame is its columns in order, each a label and a series; pandas allows a
  label to occur more than once.\<close>

type_synonym dataframe = "(string \<times> series) list"

datatype error =
    KeyError string
  | IndexError
  | AttributeError
  | TypeError
  | ExternalError string

text \<open>The logger \<open>logging.getLogger(__name__ + ".FieldDataProcessor")\<close>: the attributes
  that \<open>initialize_logging\<close> reads or writes.\<close>

datatype log_level = NOTSET | DEBUG | INFO

record logger =
  propagate :: bool
  disabled :: bool
  level :: log_level
  handlers :: nat

text \<open>The dictionary \<open>config_params\<close>; a field is \<open>None\<close> when the key is absent.\<close>

record config_params =
  cp_db_path :: "string option"
  cp_sql_query :: "string option"
  cp_columns_to_rename :: "(string \<times> string) list option"
  cp_values_to_rename :: "(pyobj \<rightharpoonup> pyobj) option"
  cp_weather_mapping_csv :: "string option"

text \<open>The instance. \<open>columns_to_rename\<close> is a dictionary read in insertion order, so it
  is kept as an association list; \<open>values_to_rename\<close> is only looked up.\<close>

record 'eng processor =
  db_path :: string
  sql_query :: string
  columns_to_rename :: "(string \<times> string) list"
  values_to_rename :: "pyobj \<rightharpoonup> pyobj"
  weather_map_data :: string
  logger :: logger
  df :: "dataframe option"
  engine :: "'eng option"

text \<open>The three functions imported from \<open>data_ingestion\<close> are parameters of the model:
  each returns a value or raises.\<close>

record 'eng data_ingestion =
  create_db_engine :: "string \<Rightarrow> error + 'eng"
  query_data :: "'eng \<Rightarrow> string \<Rightarrow> error + dataframe"
  read_from_web_CSV :: "string \<Rightarrow> error + dataframe"

section \<open>pandas operations used by the class\<close>

definition columns :: "dataframe \<Rightarrow> string list" where
  "columns d = map fst d"

text \<open>\<open>d[n]\<close> as the list of the columns labelled \<open>n\<close>: empty when pandas raises
  \<open>KeyError\<close>, one series when the label is unique, a sub-frame otherwise.\<close>

definition select :: "string \<Rightarrow> dataframe \<Rightarrow> series list" where
  "select n d = map snd (filter (\<lambda>p. fst p = n) d)"

text \<open>The cells of a series as Python objects (\<open>astype(object)\<close>).\<close>

fun py_values :: "series \<Rightarrow> pyobj list" where
  "py_values (Int64 ws) = map (\<lambda>w. PInt (sint w)) ws"
| "py_values (UInt64 ws) = map (\<lambda>w. PInt (uint w)) ws"
| "py_values (Float64 ws) = map PFloat ws"
| "py_values (Object xs) = xs"

definition nrows :: "dataframe \<Rightarrow> nat" where
  "nrows d = (case d of [] \<Rightarrow> 0 | (n, c) # d' \<Rightarrow> length (py_values c))"

text \<open>\<open>d.rename(columns=mapper)\<close> with the default \<open>errors='ignore'\<close>: every label that is
  a key of the mapper is replaced, every other label is kept, and a key that is no label
  of the frame is ignored.\<close>

definition rename :: "(string \<rightharpoonup> string) \<Rightarrow> dataframe \<Rightarrow> dataframe" where
  "rename mapper d = map (\<lambda>(n, c). (case mapper n of None \<Rightarrow> n | Some m \<Rightarrow> m, c)) d"

section \<open>\<open>rename_columns\<close>\<close>

text \<open>
  \<^verbatim>\<open>
  temp_name = "__temp_name_for_swap__"
  while temp_name in self.df.columns:
      temp_name += "_"
  \<close>
  The loop, started at any label. Each round the label grows by one character, so the
  number of column labels at least as long as it goes down.
\<close>

function temp_name_loop :: "string \<Rightarrow> string list \<Rightarrow> string" where
  "temp_name_loop temp_name cols =
     (if temp_name \<in> set cols then temp_name_loop (temp_name @ ''_'') cols else temp_name)"
  by pat_completeness auto
termination
proof (relation "measure (\<lambda>(t, cols). length (filter (\<lambda>c. length t \<le> length c) cols))")
  show "wf (measure (\<lambda>(t, cols). length (filter (\<lambda>c. length t \<le> length c) cols)))"
    by simp
next
  fix temp_name :: string and cols :: "string list"
  assume mem: "temp_name \<in> set cols"
  have "length (filter (\<lambda>c. length (temp_name @ ''_'') \<le> length c) cols)
      < length (filter (\<lambda>c. length temp_name \<le> length c) cols)"
    using mem
  proof (induction cols)
    case Nil
    then show ?case by simp
  next
    case (Cons c cols)
    have le: "length (filter (\<lambda>c. length (temp_name @ ''_'') \<le> length c) cols)
      \<le> length (filter (\<lambda>c. length temp_name \<le> length c) cols)"
      by (induction cols) auto
    show ?case
    proof (cases "temp_name \<in> set cols")
      case True
      with Cons.IH show ?thesis by auto
    next
      case False
      with Cons.prems have "c = temp_name" by simp
      with le show ?thesis by simp
    qed
  qed
  then show "((temp_name @ ''_'', cols), (temp_name, cols))
      \<in> measure (\<lambda>(t, cols). length (filter (\<lambda>c. length t \<le> length c) cols))"
    by simp
qed

declare temp_name_loop.simps [simp del]

text \<open>
  \<^verbatim>\<open>
  column1, column2 = list(self.columns_to_rename.keys())[0], list(self.columns_to_rename.values())[0]
  temp_name = ...
  self.df = self.df.rename(columns={column1: temp_name, column2: column1})
  self.df = self.df.rename(columns={temp_name: column2})
  \<close>
  Indexing the empty list raises \<open>IndexError\<close>; \<open>self.df.columns\<close> raises
  \<open>AttributeError\<close> while \<open>self.df\<close> is \<open>None\<close>. In the dictionary display the later
  entry wins when both keys are equal. The call of \<open>self.logger.info\<close> between the loop
  and the renaming writes to the handler's stream and changes no field.
\<close>

definition rename_columns :: "'eng processor \<Rightarrow> (error + unit) \<times> 'eng processor" where
  "rename_columns self =
     (case columns_to_rename self of
        [] \<Rightarrow> (Inl IndexError, self)
      | (column1, column2) # _ \<Rightarrow>
          (case df self of
             None \<Rightarrow> (Inl AttributeError, self)
           | Some d \<Rightarrow>
               let temp_name = temp_name_loop ''__temp_name_for_swap__'' (columns d);
                   d1 = rename [column1 \<mapsto> temp_name, column2 \<mapsto> column1] d;
                   d2 = rename [temp_name \<mapsto> column2] d1
               in (Inr (), self\<lparr>df := Some d2\<rparr>)))"

section \<open>Construction and logging\<close>

text \<open>\<open>str.upper\<close> on the ASCII letters.\<close>

definition upper_char :: "char \<Rightarrow> char" where
  "upper_char c =
     (let n = (of_char c :: nat) in if 97 \<le> n \<and> n \<le> 122 then char_of (n - 32) else c)"

definition upper :: "string \<Rightarrow> string" where
  "upper s = map upper_char s"

text \<open>
  \<open>initialize_logging\<close>: \<open>getLogger\<close> returns the logger registered under the class's
  name, here the argument \<open>lg\<close>; the method clears \<open>propagate\<close>, then either disables
  the logger and returns, or sets the level and adds a console handler when the logger
  has none.
\<close>

definition initialize_logging :: "string \<Rightarrow> logger \<Rightarrow> logger" where
  "initialize_logging logging_level lg =
     (let lg1 = lg\<lparr>propagate := False\<rparr> in
      if upper logging_level = ''DEBUG'' then
        (let lg2 = lg1\<lparr>level := DEBUG\<rparr>
         in if handlers lg2 = 0 then lg2\<lparr>handlers := 1\<rparr> else lg2)
      else if upper logging_level = ''INFO'' then
        (let lg2 = lg1\<lparr>level := INFO\<rparr>
         in if handlers lg2 = 0 then lg2\<lparr>handlers := 1\<rparr> else lg2)
      else if upper logging_level = ''NONE'' then lg1\<lparr>disabled := True\<rparr>
      else
        (let lg2 = lg1\<lparr>level := INFO\<rparr>
         in if handlers lg2 = 0 then lg2\<lparr>handlers := 1\<rparr> else lg2))"

text \<open>\<open>__init__\<close>: each \<open>config_params[key]\<close> raises \<open>KeyError\<close> when the key is absent;
  the reads happen in the order of the source.\<close>

definition init :: "config_params \<Rightarrow> string \<Rightarrow> logger \<Rightarrow> error + 'eng processor" where
  "init config_params logging_level lg =
     (case cp_db_path config_params of
        None \<Rightarrow> Inl (KeyError ''db_path'')
      | Some p \<Rightarrow>
     (case cp_sql_query config_params of
        None \<Rightarrow> Inl (KeyError ''sql_query'')
      | Some q \<Rightarrow>
     (case cp_columns_to_rename config_params of
        None \<Rightarrow> Inl (KeyError ''columns_to_rename'')
      | Some cr \<Rightarrow>
     (case cp_values_to_rename config_params of
        None \<Rightarrow> Inl (KeyError ''values_to_rename'')
      | Some vr \<Rightarrow>
     (case cp_weather_mapping_csv config_params of
        None \<Rightarrow> Inl (KeyError ''weather_mapping_csv'')
      | Some w \<Rightarrow>
          Inr \<lparr>db_path = p, sql_query = q, columns_to_rename = cr, values_to_rename = vr,
               weather_map_data = w, logger = initialize_logging logging_level lg,
               df = None, engine = None\<rparr>)))))"

section \<open>\<open>ingest_sql_data\<close>\<close>

text \<open>
  \<^verbatim>\<open>
  self.engine = create_db_engine(self.db_path)
  self.df = query_data(self.engine, self.sql_query)
  self.logger.info("Sucessfully loaded data.")
  return self.df
  \<close>
  When \<open>query_data\<close> raises, the engine has been stored already. The call of
  \<open>self.logger.info\<close> writes to the handler's stream and changes no field.
\<close>

definition ingest_sql_data ::
  "'eng data_ingestion \<Rightarrow> 'eng processor \<Rightarrow> (error + dataframe) \<times> 'eng processor" where
  "ingest_sql_data env self =
     (case create_db_engine env (db_path self) of
        Inl e \<Rightarrow> (Inl e, self)
      | Inr eng \<Rightarrow>
          let self1 = self\<lparr>engine := Some eng\<rparr>
          in (case query_data env eng (sql_query self1) of
                Inl e \<Rightarrow> (Inl e, self1)
              | Inr d \<Rightarrow> (Inr d, self1\<lparr>df := Some d\<rparr>)))"

section \<open>\<open>apply_corrections\<close>\<close>

text \<open>\<open>d[n]\<close> raises \<open>KeyError\<close> when no column carries the label.\<close>

definition getitem :: "string \<Rightarrow> dataframe \<Rightarrow> error + series list" where
  "getitem n d = (case select n d of [] \<Rightarrow> Inl (KeyError n) | c # cs \<Rightarrow> Inr (c # cs))"

text \<open>\<open>d[n] = value\<close>: the columns labelled \<open>n\<close> are replaced in order, and a label the
  frame does not have is appended. The class only assigns as many columns as it has read
  under the same label.\<close>

fun setitem :: "string \<Rightarrow> series list \<Rightarrow> dataframe \<Rightarrow> dataframe" where
  "setitem n cs [] = map (Pair n) cs"
| "setitem n cs ((m, c) # d) =
     (if m = n then
        (case cs of [] \<Rightarrow> (m, c) # setitem n [] d | c' # cs' \<Rightarrow> (m, c') # setitem n cs' d)
      else (m, c) # setitem n cs d)"

text \<open>
  The absolute value. numpy's \<open>abs\<close> on \<open>int64\<close> negates in two's complement, so the least
  value is its own absolute value; on \<open>uint64\<close> it changes nothing; on \<open>float64\<close> it clears
  the sign bit, of a \<open>NaN\<close> too. Python's \<open>abs\<close>, called on each cell of an object column, is
  exact on integers, clears the sign bit of a float and raises \<open>TypeError\<close> on a string and
  on \<open>None\<close>.
\<close>

definition abs_int64 :: "64 word \<Rightarrow> 64 word" where
  "abs_int64 w = (if sint w < 0 then - w else w)"

definition fabs :: "64 word \<Rightarrow> 64 word" where
  "fabs w = take_bit 63 w"

fun py_abs :: "pyobj \<Rightarrow> error + pyobj" where
  "py_abs (PInt i) = Inr (PInt \<bar>i\<bar>)"
| "py_abs (PFloat w) = Inr (PFloat (fabs w))"
| "py_abs (PStr s) = Inl TypeError"
| "py_abs PNone = Inl TypeError"

fun map_raise :: "('a \<Rightarrow> error + 'b) \<Rightarrow> 'a list \<Rightarrow> error + 'b list" where
  "map_raise f [] = Inr []"
| "map_raise f (x # xs) =
     (case f x of
        Inl e \<Rightarrow> Inl e
      | Inr y \<Rightarrow> (case map_raise f xs of Inl e \<Rightarrow> Inl e | Inr ys \<Rightarrow> Inr (y # ys)))"

fun series_abs :: "series \<Rightarrow> error + series" where
  "series_abs (Int64 ws) = Inr (Int64 (map abs_int64 ws))"
| "series_abs (UInt64 ws) = Inr (UInt64 ws)"
| "series_abs (Float64 ws) = Inr (Float64 (map fabs ws))"
| "series_abs (Object xs) =
     (case map_raise py_abs xs of Inl e \<Rightarrow> Inl e | Inr ys \<Rightarrow> Inr (Object ys))"

text \<open>
  Floats: a \<open>NaN\<close> has all exponent bits set and a fraction other than zero; \<open>fnan\<close> is the
  \<open>NaN\<close> that pandas stores for \<open>None\<close>. The conversion of a Python integer to a float
  rounds to the nearest float, a tie to the even fraction; an integer that rounds to
  \<open>2 ^ 1024\<close> or more has no float.
\<close>

definition is_nan :: "64 word \<Rightarrow> bool" where
  "is_nan w = (0x7FF0000000000000 < take_bit 63 w)"

definition fnan :: "64 word" where
  "fnan = 0x7FF8000000000000"

fun bit_length :: "nat \<Rightarrow> nat" where
  "bit_length n = (if n = 0 then 0 else Suc (bit_length (n div 2)))"

declare bit_length.simps [simp del]

definition float64_of_int :: "int \<Rightarrow> 64 word option" where
  "float64_of_int i =
     (if i = 0 then Some 0
      else
        let n = nat \<bar>i\<bar>;
            k = bit_length n - 1;
            q = (if k \<le> 52 then n * 2 ^ (52 - k)
                 else
                   let s = k - 52; t = n div 2 ^ s; r = n mod 2 ^ s
                   in if 2 ^ (s - 1) < r \<or> (r = 2 ^ (s - 1) \<and> odd t) then t + 1 else t);
            m = (if q = 2 ^ 53 then 2 ^ 52 else q);
            e = (if q = 2 ^ 53 then k + 1 else k)
        in if 1023 < e then None
           else Some (word_of_nat
                  ((if i < 0 then 2 ^ 63 else 0) + (e + 1023) * 2 ^ 52 + (m - 2 ^ 52))))"

text \<open>
  \<open>Series.apply\<close> calls the function on every cell as a Python object and passes the
  results to \<open>maybe_convert_objects\<close>, which looks at them in order and leaves the loop at
  the first result that forces dtype \<open>object\<close>: a string, an integer outside the range of
  \<open>int64\<close> and \<open>uint64\<close>, or a negative integer together with one above the range of
  \<open>int64\<close>. Integers are not checked once a \<open>None\<close> has been seen.
\<close>

record seen =
  seen_null :: bool
  seen_nan :: bool
  seen_float :: bool
  seen_int :: bool
  seen_uint :: bool
  seen_sint :: bool
  seen_object :: bool

fun convert_loop :: "pyobj list \<Rightarrow> seen \<Rightarrow> seen" where
  "convert_loop [] s = s"
| "convert_loop (PNone # xs) s = convert_loop xs (s\<lparr>seen_null := True\<rparr>)"
| "convert_loop (PFloat w # xs) s =
     (if is_nan w then convert_loop xs (s\<lparr>seen_nan := True\<rparr>)
      else convert_loop xs (s\<lparr>seen_float := True\<rparr>))"
| "convert_loop (PInt v # xs) s =
     (if seen_null s then convert_loop xs (s\<lparr>seen_int := True\<rparr>)
      else
        let s1 = s\<lparr>seen_int := True,
                   seen_sint := seen_sint s \<or> (- (2 ^ 63) \<le> v \<and> v < 0),
                   seen_uint := seen_uint s \<or> (2 ^ 63 \<le> v \<and> v < 2 ^ 64)\<rparr>
        in if (seen_uint s1 \<and> seen_sint s1) \<or> 2 ^ 64 \<le> v \<or> v < - (2 ^ 63)
           then s1\<lparr>seen_object := True\<rparr>
           else convert_loop xs s1)"
| "convert_loop (PStr t # xs) s = s\<lparr>seen_object := True\<rparr>"

text \<open>The results as cells of one dtype; \<open>None\<close> when a result does not fit it.\<close>

fun int64_cast :: "pyobj \<Rightarrow> 64 word option" where
  "int64_cast (PInt v) =
     (if - (2 ^ 63) \<le> v \<and> v < 2 ^ 63 then Some (word_of_int v) else None)"
| "int64_cast x = None"

fun uint64_cast :: "pyobj \<Rightarrow> 64 word option" where
  "uint64_cast (PInt v) = (if 0 \<le> v \<and> v < 2 ^ 64 then Some (word_of_int v) else None)"
| "uint64_cast x = None"

fun float64_cast :: "pyobj \<Rightarrow> 64 word option" where
  "float64_cast (PInt v) = float64_of_int v"
| "float64_cast (PFloat w) = Some w"
| "float64_cast PNone = Some fnan"
| "float64_cast (PStr t) = None"

definition astype :: "(pyobj \<Rightarrow> 64 word option) \<Rightarrow> (64 word list \<Rightarrow> series) \<Rightarrow> pyobj list \<Rightarrow> series" where
  "astype cast dtype xs = (case those (map cast xs) of Some ws \<Rightarrow> dtype ws | None \<Rightarrow> Object xs)"

text \<open>The dtype chosen after the loop: \<open>float64\<close> when a float or a \<open>NaN\<close> was seen, or a
  \<open>None\<close> beside an integer; otherwise \<open>uint64\<close> or \<open>int64\<close> for integers; otherwise the
  objects are kept.\<close>

definition infer_objects :: "pyobj list \<Rightarrow> series" where
  "infer_objects xs =
     (let s = convert_loop xs
            \<lparr>seen_null = False, seen_nan = False, seen_float = False, seen_int = False,
             seen_uint = False, seen_sint = False, seen_object = False\<rparr>
      in if seen_object s then Object xs
         else if seen_null s \<or> seen_nan s then
           (if seen_float s \<or> seen_int s \<or> seen_nan s then astype float64_cast Float64 xs
            else Object xs)
         else if seen_float s then astype float64_cast Float64 xs
         else if seen_int s then
           (if seen_uint s then astype uint64_cast UInt64 xs else astype int64_cast Int64 xs)
         else Object xs)"


text \<open>An empty series is returned as it is.\<close>

definition series_apply :: "(pyobj \<Rightarrow> pyobj) \<Rightarrow> series \<Rightarrow> series" where
  "series_apply f c = (if py_values c = [] then c else infer_objects (map f (py_values c)))"

text \<open>
  \<open>d[n].apply(f)\<close>: on one series the function is applied to the cells. Under a repeated
  label \<open>d[n]\<close> is a frame, whose \<open>apply\<close> passes each column to the function, and
  \<open>dict.get\<close> raises \<open>TypeError\<close> on a series, which is not hashable; when the frame has no
  rows, \<open>apply\<close> tries the function on an empty series, ignores the exception and returns
  a copy of the frame.
\<close>

definition apply_cells :: "(pyobj \<Rightarrow> pyobj) \<Rightarrow> series list \<Rightarrow> error + series list" where
  "apply_cells f cs =
     (case cs of
        [c] \<Rightarrow> Inr [series_apply f c]
      | _ \<Rightarrow> if list_all (\<lambda>c. py_values c = []) cs then Inr cs else Inl TypeError)"

text \<open>\<open>mapping.get(crop, crop)\<close>. The dictionary is its lookup: \<open>mapping crop\<close> is the value
  stored under the key that Python finds for \<open>crop\<close>, and \<open>None\<close> when it finds none.\<close>

definition dict_get :: "(pyobj \<rightharpoonup> pyobj) \<Rightarrow> pyobj \<Rightarrow> pyobj" where
  "dict_get mapping crop = (case mapping crop of None \<Rightarrow> crop | Some v \<Rightarrow> v)"

text \<open>
  \<^verbatim>\<open>
  self.df[abs_column] = self.df[abs_column].abs()
  self.df[column_name] = self.df[column_name].apply(lambda crop: self.values_to_rename.get(crop, crop))
  \<close>
  Subscripting \<open>None\<close> raises \<open>TypeError\<close>. The first assignment changes the table in
  place, so it stays when the second statement raises.
\<close>

definition apply_corrections ::
  "string \<Rightarrow> string \<Rightarrow> 'eng processor \<Rightarrow> (error + unit) \<times> 'eng processor" where
  "apply_corrections column_name abs_column self =
     (case df self of
        None \<Rightarrow> (Inl TypeError, self)
      | Some d \<Rightarrow>
     (case getitem abs_column d of
        Inl e \<Rightarrow> (Inl e, self)
      | Inr cs \<Rightarrow>
     (case map_raise series_abs cs of
        Inl e \<Rightarrow> (Inl e, self)
      | Inr cs' \<Rightarrow>
          let d1 = setitem abs_column cs' d;
              self1 = self\<lparr>df := Some d1\<rparr>
          in (case getitem column_name d1 of
                Inl e \<Rightarrow> (Inl e, self1)
              | Inr ks \<Rightarrow>
             (case apply_cells (dict_get (values_to_rename self1)) ks of
                Inl e \<Rightarrow> (Inl e, self1)
              | Inr ks' \<Rightarrow> (Inr (), self1\<lparr>df := Some (setitem column_name ks' d1)\<rparr>))))))"

section \<open>\<open>weather_station_mapping\<close> and \<open>process\<close>\<close>

text \<open>
  \<^verbatim>\<open>
  df = read_from_web_CSV(self.weather_map_data)
  return df
  \<close>
  \<open>df\<close> is a local variable here.
\<close>

definition weather_station_mapping ::
  "'eng data_ingestion \<Rightarrow> 'eng processor \<Rightarrow> (error + dataframe) \<times> 'eng processor" where
  "weather_station_mapping env self = (read_from_web_CSV env (weather_map_data self), self)"

text \<open>
  \<^verbatim>\<open>
  self.ingest_sql_data()
  self.rename_columns()
  self.apply_corrections()
  \<close>
  An exception of a step leaves the method at once; \<open>apply_corrections\<close> runs with its
  default arguments.
\<close>

definition process :: "'eng data_ingestion \<Rightarrow> 'eng processor \<Rightarrow> (error + unit) \<times> 'eng processor" where
  "process env self =
     (case ingest_sql_data env self of
        (Inl e, self1) \<Rightarrow> (Inl e, self1)
      | (Inr d, self1) \<Rightarrow>
     (case rename_columns self1 of
        (Inl e, self2) \<Rightarrow> (Inl e, self2)
      | (Inr u, self2) \<Rightarrow> apply_corrections ''Crop_type'' ''Elevation'' self2))"

text \<open>The configuration of an instance: the five fields that \<open>__init__\<close> copies from
  \<open>config_params\<close>.\<close>

definition configuration ::
  "'eng processor \<Rightarrow> string \<times> string \<times> (string \<times> string) list \<times> (pyobj \<rightharpoonup> pyobj) \<times> string" where
  "configuration self =
     (db_path self, sql_query self, columns_to_rename self, values_to_rename self,
      weather_map_data self)"

section \<open>Example instances\<close>

text \<open>A small survey table in which the columns \<open>Annual_yield\<close> and \<open>Crop_type\<close> carry each
  other's data, and an instance configured to swap them.\<close>

definition ex_df :: dataframe where
  "ex_df = [(''Field_ID'', Int64 [1, 2, 3]),
            (''Elevation'', Int64 [- 5, 10, - 3]),
            (''Annual_yield'', Object [PStr ''maize'', PStr ''unknown_code'', PStr ''maize'']),
            (''Crop_type'', Int64 [3, 7, 5])]"

definition ex_self :: "nat processor" where
  "ex_self = \<lparr>db_path = ''sqlite:///farm.db'', sql_query = ''SELECT * FROM fields'',
     columns_to_rename = [(''Annual_yield'', ''Crop_type''), (''Crop_type'', ''Annual_yield'')],
     values_to_rename = [PStr ''unknown_code'' \<mapsto> PStr ''wheat''],
     weather_map_data = ''https://example.org/stations.csv'',
     logger = \<lparr>propagate = False, disabled = False, level = INFO, handlers = 1\<rparr>,
     df = None, engine = None\<rparr>"

definition ex_df_one_label :: dataframe where
  "ex_df_one_label = [(''Field_ID'', Int64 [1, 2, 3]),
            (''Elevation'', Int64 [- 5, 10, - 3]),
            (''Crop_type'', Object [PStr ''maize'', PStr ''unknown_code'', PStr ''maize''])]"









definition ex_stations :: dataframe where
  "ex_stations = [(''Field_ID'', Int64 [1, 2, 3]), (''Weather_station'', Int64 [4, 0, 1])]"

definition ex_env :: "dataframe \<Rightarrow> nat data_ingestion" where
  "ex_env table =
     \<lparr>create_db_engine = (\<lambda>p. if p = ''sqlite:///farm.db'' then Inr 1
          else Inl (ExternalError ''unable to open database file'')),
      query_data = (\<lambda>e q. if q = ''SELECT * FROM fields'' then Inr table
          else Inl (ExternalError ''no such table'')),
      read_from_web_CSV = (\<lambda>u. if u = ''https://example.org/stations.csv'' then Inr ex_stations
          else Inl (ExternalError ''HTTP Error 404''))\<rparr>"

definition ex_config :: config_params where
  "ex_config = \<lparr>cp_db_path = Some ''sqlite:///farm.db'',
     cp_sql_query = Some ''SELECT * FROM fields'',
     cp_columns_to_rename = Some [(''Annual_yield'', ''Crop_type''), (''Crop_type'', ''Annual_yield'')],
     cp_values_to_rename = Some [PStr ''unknown_code'' \<mapsto> PStr ''wheat''],
     cp_weather_mapping_csv = Some ''https://example.org/stations.csv''\<rparr>"

section \<open>The temporary label and the renaming\<close>

lemma temp_name_loop_fresh: "temp_name_loop t cols \<notin> set cols"
  by (induction t cols rule: temp_name_loop.induct) (simp add: temp_name_loop.simps)

lemma temp_name_loop_shape:
  "\<exists>k. k \<le> length (filter (\<lambda>c. length t \<le> length c) cols) \<and> temp_name_loop t cols = t @ replicate k CHR ''_''"
proof (induction t cols rule: temp_name_loop.induct)
  case (1 t cols)
  show ?case
  proof (cases "t \<in> set cols")
    case True
    with 1 obtain k where k: "k \<le> length (filter (\<lambda>c. length (t @ ''_'') \<le> length c) cols)"
      "temp_name_loop (t @ ''_'') cols = (t @ ''_'') @ replicate k CHR ''_''" by blast
    have "length (filter (\<lambda>c. length (t @ ''_'') \<le> length c) cols)
        < length (filter (\<lambda>c. length t \<le> length c) cols)"
      using True
    proof (induction cols)
      case Nil
      then show ?case by simp
    next
      case (Cons c cols)
      have le: "length (filter (\<lambda>c. length (t @ ''_'') \<le> length c) cols)
        \<le> length (filter (\<lambda>c. length t \<le> length c) cols)"
        by (induction cols) auto
      show ?case
      proof (cases "t \<in> set cols")
        case True
        with Cons.IH show ?thesis by auto
      next
        case False
        with Cons.prems have "c = t" by simp
        with le show ?thesis by simp
      qed
    qed
    with k(1) have "Suc k \<le> length (filter (\<lambda>c. length t \<le> length c) cols)" by simp
    moreover from True k(2) have "temp_name_loop t cols = t @ replicate (Suc k) CHR ''_''"
      by (simp add: temp_name_loop.simps [of t])
    ultimately show ?thesis by blast
  next
    case False
    then have "temp_name_loop t cols = t @ replicate 0 CHR ''_''"
      by (simp add: temp_name_loop.simps [of t])
    then show ?thesis by blast
  qed
qed

lemma rename_labels:
  assumes "t \<notin> set (columns d)"
  shows "rename [t \<mapsto> c2] (rename [c1 \<mapsto> t, c2 \<mapsto> c1] d) =
     map (\<lambda>(n, c). (if n = c1 then c2 else if n = c2 then (if c1 = t then c2 else c1) else n, c)) d"
  using assms by (induction d) (auto simp: rename_def columns_def)

lemma rename_columns_result:
  assumes "df self = Some d" and "columns_to_rename self = (A, B) # rest"
  shows "rename_columns self = (Inr (), self\<lparr>df := Some (map (\<lambda>(n, c).
       (if n = A then B
        else if n = B then (if A = temp_name_loop ''__temp_name_for_swap__'' (columns d) then B else A)
        else n, c)) d)\<rparr>)"
  using assms rename_labels [OF temp_name_loop_fresh, of "''__temp_name_for_swap__''" d B A]
  by (simp add: rename_columns_def Let_def)

lemma select_swap:
  assumes "A \<noteq> B"
  shows "select B (map (\<lambda>(n, c). (if n = A then B else if n = B then A else n, c)) d) = select A d"
    and "select A (map (\<lambda>(n, c). (if n = A then B else if n = B then A else n, c)) d) = select B d"
  using assms by (induction d) (auto simp: select_def split: if_splits)

text \<open>
  Claim C1. For every table that contains both columns \<open>A\<close> and \<open>B\<close> of the configured
  rename pair, after \<open>rename_columns\<close> the column named \<open>B\<close> holds the values that were
  under \<open>A\<close> before the call, and the column named \<open>A\<close> holds the values that were under
  \<open>B\<close>: the two names are swapped, neither column is overwritten.
\<close>

theorem rename_columns_swaps:
  assumes "df self = Some d" and "columns_to_rename self = (A, B) # rest"
    and "A \<in> set (columns d)" and "B \<in> set (columns d)"
  shows "\<exists>d'. rename_columns self = (Inr (), self\<lparr>df := Some d'\<rparr>)
           \<and> select B d' = select A d \<and> select A d' = select B d"
proof -
  let ?t = "temp_name_loop ''__temp_name_for_swap__'' (columns d)"
  from assms(3) have ne: "A \<noteq> ?t" using temp_name_loop_fresh [of "''__temp_name_for_swap__''" "columns d"] by auto
  let ?d = "map (\<lambda>(n, c). (if n = A then B else if n = B then A else n, c)) d"
  from rename_columns_result [OF assms(1,2)] ne
  have r: "rename_columns self = (Inr (), self\<lparr>df := Some ?d\<rparr>)" by simp
  show ?thesis
  proof (cases "A = B")
    case True
    then have "?d = d" by (induction d) auto
    with r show ?thesis using True by auto
  next
    case False
    from select_swap [OF False] r show ?thesis by blast
  qed
qed


theorem rename_columns_swaps_witness:
  "\<exists>d'. rename_columns (ex_self\<lparr>df := Some ex_df\<rparr>) = (Inr (), ex_self\<lparr>df := Some d'\<rparr>)
     \<and> select ''Crop_type'' d' = [Object [PStr ''maize'', PStr ''unknown_code'', PStr ''maize'']]
     \<and> select ''Annual_yield'' d' = [Int64 [3, 7, 5]]"
  using rename_columns_swaps [of "ex_self\<lparr>df := Some ex_df\<rparr>" ex_df "''Annual_yield''" "''Crop_type''"
      "[(''Crop_type'', ''Annual_yield'')]"]
  by (simp add: ex_self_def ex_df_def columns_def select_def)

text \<open>
  Claim C2. The claim is that \<open>rename_columns\<close> raises a missing-key error when \<open>A\<close> or \<open>B\<close>
  is absent from the table, as the method's docstring says. The code does not: on a table
  without \<open>Annual_yield\<close> and the pair \<open>Annual_yield\<close>, \<open>Crop_type\<close> the method completes,
  and the column \<open>Crop_type\<close> comes out named \<open>Annual_yield\<close>.
\<close>

theorem rename_columns_absent_label_completes:
  "rename_columns (ex_self\<lparr>df := Some ex_df_one_label\<rparr>) =
     (Inr (), ex_self\<lparr>df := Some [(''Field_ID'', Int64 [1, 2, 3]),
            (''Elevation'', Int64 [- 5, 10, - 3]),
            (''Annual_yield'', Object [PStr ''maize'', PStr ''unknown_code'', PStr ''maize''])]\<rparr>)"
  by (simp add: rename_columns_def ex_self_def ex_df_one_label_def columns_def rename_def
      temp_name_loop.simps)

text \<open>
  Claim C3. For every table whose columns are \<open>Crop_type\<close>, \<open>Elevation\<close>, \<open>Field_A\<close> and the
  rename pair \<open>Field_A\<close>, \<open>Field_B\<close>, \<open>rename_columns\<close> completes without error and the third
  column is named \<open>Field_B\<close> with the values of \<open>Field_A\<close> unchanged: a straight rename.
\<close>

theorem rename_columns_field_a_to_field_b:
  "rename_columns (self\<lparr>df := Some [(''Crop_type'', c1), (''Elevation'', c2), (''Field_A'', c3)],
       columns_to_rename := [(''Field_A'', ''Field_B'')]\<rparr>) =
     (Inr (), self\<lparr>df := Some [(''Crop_type'', c1), (''Elevation'', c2), (''Field_B'', c3)],
       columns_to_rename := [(''Field_A'', ''Field_B'')]\<rparr>)"
  by (simp add: rename_columns_def columns_def rename_def temp_name_loop.simps)

text \<open>
  Claim C4. For every table, also one that contains \<open>__temp_name_for_swap__\<close> and variants
  of it extended by underscores, the temporary-label loop of \<open>rename_columns\<close> terminates
  and its label is no column name of the table. The loop is the total function
  \<open>temp_name_loop\<close>; it appends at most as many underscores as the table has columns.
\<close>

theorem temp_name_never_collides:
  "temp_name_loop ''__temp_name_for_swap__'' (columns d) \<notin> set (columns d)
   \<and> (\<exists>k. k \<le> length d \<and> temp_name_loop ''__temp_name_for_swap__'' (columns d) =
             ''__temp_name_for_swap__'' @ replicate k CHR ''_'')"
proof -
  obtain k where k: "k \<le> length (filter (\<lambda>c. length ''__temp_name_for_swap__'' \<le> length c) (columns d))"
    "temp_name_loop ''__temp_name_for_swap__'' (columns d) =
             ''__temp_name_for_swap__'' @ replicate k CHR ''_''"
    using temp_name_loop_shape by blast
  have "length (filter (\<lambda>c. length ''__temp_name_for_swap__'' \<le> length c) (columns d)) \<le> length d"
    using length_filter_le [of _ "columns d"] by (simp add: columns_def)
  with k have "k \<le> length d" by linarith
  with k(2) temp_name_loop_fresh show ?thesis by blast
qed

text \<open>
  Claim C10. \<open>rename_columns\<close> changes column labels only: the row count and the number of
  columns stay, the values of every column stay, and every column whose name is neither
  \<open>A\<close> nor \<open>B\<close> of the rename pair keeps its name and its values.
\<close>

theorem rename_columns_labels_only:
  assumes "df self = Some d" and "columns_to_rename self = (A, B) # rest"
  shows "\<exists>d'. rename_columns self = (Inr (), self\<lparr>df := Some d'\<rparr>)
           \<and> nrows d' = nrows d \<and> length d' = length d \<and> map snd d' = map snd d
           \<and> (\<forall>i. i < length d \<and> fst (d ! i) \<noteq> A \<and> fst (d ! i) \<noteq> B \<longrightarrow> d' ! i = d ! i)"
proof -
  let ?f = "\<lambda>n. if n = A then B
        else if n = B then (if A = temp_name_loop ''__temp_name_for_swap__'' (columns d) then B else A)
        else n"
  let ?d = "map (\<lambda>(n, c). (?f n, c)) d"
  have r: "rename_columns self = (Inr (), self\<lparr>df := Some ?d\<rparr>)"
    using rename_columns_result [OF assms] by simp
  have v: "map snd ?d = map snd d" by (induction d) auto
  have n: "nrows ?d = nrows d" by (cases d) (auto simp: nrows_def)
  have k: "\<forall>i. i < length d \<and> fst (d ! i) \<noteq> A \<and> fst (d ! i) \<noteq> B \<longrightarrow> ?d ! i = d ! i"
    by (auto simp: case_prod_beta)
  from r v n k show ?thesis by (intro exI [of _ ?d]) simp
qed

theorem rename_columns_labels_only_witness:
  "\<exists>d'. rename_columns (ex_self\<lparr>df := Some ex_df\<rparr>) = (Inr (), ex_self\<lparr>df := Some d'\<rparr>)
     \<and> nrows d' = 3 \<and> length d' = 4
     \<and> d' ! 0 = (''Field_ID'', Int64 [1, 2, 3]) \<and> d' ! 1 = (''Elevation'', Int64 [- 5, 10, - 3])"
proof -
  have a: "df (ex_self\<lparr>df := Some ex_df\<rparr>) = Some ex_df" by simp
  have b: "columns_to_rename (ex_self\<lparr>df := Some ex_df\<rparr>) =
      (''Annual_yield'', ''Crop_type'') # [(''Crop_type'', ''Annual_yield'')]"
    by (simp add: ex_self_def)
  from rename_columns_labels_only [OF a b] obtain d' where
    d: "rename_columns (ex_self\<lparr>df := Some ex_df\<rparr>) = (Inr (), ex_self\<lparr>df := Some d'\<rparr>)"
      "nrows d' = nrows ex_df" "length d' = length ex_df"
      "\<forall>i. i < length ex_df \<and> fst (ex_df ! i) \<noteq> ''Annual_yield'' \<and> fst (ex_df ! i) \<noteq> ''Crop_type''
         \<longrightarrow> d' ! i = ex_df ! i"
    by auto
  from d(4) have "d' ! 0 = ex_df ! 0" by (simp add: ex_df_def)
  moreover from d(4) have "d' ! 1 = ex_df ! 1" by (simp add: ex_df_def)
  ultimately show ?thesis using d(1,2,3) by (intro exI [of _ d']) (simp add: ex_df_def nrows_def)
qed

section \<open>The corrections\<close>












































section \<open>The pipeline\<close>

lemma ex_init: "init ex_config ''INFO''
    \<lparr>propagate = True, disabled = False, level = NOTSET, handlers = 0\<rparr> = Inr ex_self"
  by (simp add: init_def ex_config_def ex_self_def initialize_logging_def upper_def upper_char_def)


















text \<open>
  Claim C8. \<open>weather_station_mapping\<close> changes no instance state: after the call every
  field of the instance is as before, and the fetched table (or the error) is only
  returned to the caller.
\<close>

theorem weather_station_mapping_reads_only:
  "snd (weather_station_mapping env self) = self
   \<and> fst (weather_station_mapping env self) = read_from_web_CSV env (weather_map_data self)"
  by (simp add: weather_station_mapping_def)

lemma configuration_ingest: "configuration (snd (ingest_sql_data env self)) = configuration self"
  by (simp add: ingest_sql_data_def configuration_def Let_def split: sum.splits)

lemma configuration_rename: "configuration (snd (rename_columns self)) = configuration self"
  by (simp add: rename_columns_def configuration_def Let_def split: list.splits option.splits)

lemma configuration_corrections:
  "configuration (snd (apply_corrections cn ac self)) = configuration self"
  by (simp add: apply_corrections_def configuration_def Let_def split: option.splits sum.splits)

lemma configuration_process: "configuration (snd (process env self)) = configuration self"
proof (cases "ingest_sql_data env self")
  case i: (Pair r1 s1)
  from configuration_ingest [of env self] i have c1: "configuration s1 = configuration self" by simp
  show ?thesis
  proof (cases r1)
    case (Inl e)
    with i c1 show ?thesis by (simp add: process_def)
  next
    case (Inr t)
    show ?thesis
    proof (cases "rename_columns s1")
      case r: (Pair r2 s2)
      from configuration_rename [of s1] r have c2: "configuration s2 = configuration s1" by simp
      show ?thesis
      proof (cases r2)
        case (Inl e)
        with i Inr r c1 c2 show ?thesis by (simp add: process_def)
      next
        case u: (Inr u)
        with i Inr r have "process env self = apply_corrections ''Crop_type'' ''Elevation'' s2"
          by (simp add: process_def)
        with configuration_corrections [of "''Crop_type''" "''Elevation''" s2] c1 c2
        show ?thesis by simp
      qed
    qed
  qed
qed

text \<open>
  Claim C9. The configuration is immutable after construction: the constructor stores
  the five entries of \<open>config_params\<close>, and each of \<open>ingest_sql_data\<close>, \<open>rename_columns\<close>,
  \<open>apply_corrections\<close>, \<open>weather_station_mapping\<close> and \<open>process\<close> leaves \<open>db_path\<close>,
  \<open>sql_query\<close>, \<open>columns_to_rename\<close>, \<open>values_to_rename\<close> and \<open>weather_map_data\<close> as they are,
  whether it returns or raises.
\<close>

theorem configuration_immutable:
  "(\<forall>self0. init config_params logging_level lg = Inr self0 \<longrightarrow>
       cp_db_path config_params = Some (db_path self0)
     \<and> cp_sql_query config_params = Some (sql_query self0)
     \<and> cp_columns_to_rename config_params = Some (columns_to_rename self0)
     \<and> cp_values_to_rename config_params = Some (values_to_rename self0)
     \<and> cp_weather_mapping_csv config_params = Some (weather_map_data self0))
   \<and> configuration (snd (ingest_sql_data env self)) = configuration self
   \<and> configuration (snd (rename_columns self)) = configuration self
   \<and> configuration (snd (apply_corrections column_name abs_column self)) = configuration self
   \<and> configuration (snd (weather_station_mapping env self)) = configuration self
   \<and> configuration (snd (process env self)) = configuration self"
proof -
  have "cp_db_path config_params = Some (db_path self0)
     \<and> cp_sql_query config_params = Some (sql_query self0)
     \<and> cp_columns_to_rename config_params = Some (columns_to_rename self0)
     \<and> cp_values_to_rename config_params = Some (values_to_rename self0)
     \<and> cp_weather_mapping_csv config_params = Some (weather_map_data self0)"
    if "init config_params logging_level lg = Inr self0" for self0 :: "'a processor"
    using that by (auto simp: init_def split: option.splits)
  moreover have "configuration (snd (weather_station_mapping env self)) = configuration self"
    by (simp add: weather_station_mapping_def)
  ultimately show ?thesis
    using configuration_ingest configuration_rename configuration_corrections configuration_process
    by blast
qed

theorem configuration_immutable_witness:
  "init ex_config ''INFO'' \<lparr>propagate = True, disabled = False, level = NOTSET, handlers = 0\<rparr>
     = Inr ex_self
   \<and> cp_db_path ex_config = Some (db_path ex_self)
   \<and> cp_sql_query ex_config = Some (sql_query ex_self)
   \<and> cp_columns_to_rename ex_config = Some (columns_to_rename ex_self)
   \<and> cp_values_to_rename ex_config = Some (values_to_rename ex_self)
   \<and> cp_weather_mapping_csv ex_config = Some (weather_map_data ex_self)
   \<and> configuration (snd (process (ex_env ex_df) ex_self)) = configuration ex_self"
proof -
  note t = configuration_immutable [of ex_config "''INFO''"
      "\<lparr>propagate = True, disabled = False, level = NOTSET, handlers = 0\<rparr>"
      "ex_env ex_df" ex_self "''Crop_type''" "''Elevation''"]
  from t ex_init show ?thesis by blast
qed

end
